theory Spec2Isabelle
  imports Complex_Main "HOL-Library.Word" "HOL-Library.FSet"
begin

section \<open>Python runtime: exceptions, strings, files\<close>

text \<open>
  The scripts of the repository are standalone Python programs. Exceptions are values:
  a function that can raise returns \<open>exn + 'a\<close>, with \<open>Inl\<close> for the raised exception.
  Only subclasses of Python's \<open>Exception\<close> are modelled, which is what the handlers
  \<open>except Exception\<close> of the sources catch.
\<close>

datatype exn = OSError | RuntimeError | TypeError | IndexError | AttributeError
  | UnicodeDecodeError | OverflowError | ValueError | MemoryError

text \<open>
  A Python \<open>str\<close> is modelled as a \<open>string\<close>, each character standing for the code point of
  the same number (code points above 255 are outside the model).
  \<open>str.strip()\<close> removes the white space of \<open>str.isspace\<close>.
\<close>

definition py_isspace :: "char \<Rightarrow> bool" where
  "py_isspace c = ((of_char c :: nat) \<in> set [9, 10, 11, 12, 13, 28, 29, 30, 31, 32, 133, 160])"

definition py_lstrip :: "string \<Rightarrow> string" where
  "py_lstrip s = dropWhile py_isspace s"

definition py_strip :: "string \<Rightarrow> string" where
  "py_strip s = rev (dropWhile py_isspace (rev (dropWhile py_isspace s)))"

text \<open>\<open>s.lstrip(chars)\<close> with an explicit set of characters.\<close>

definition py_lstrip_chars :: "string \<Rightarrow> string \<Rightarrow> string" where
  "py_lstrip_chars chars s = dropWhile (\<lambda>c. c \<in> set chars) s"

definition py_startswith :: "string \<Rightarrow> string \<Rightarrow> bool" where
  "py_startswith s p = (take (length p) s = p)"

definition py_endswith :: "string \<Rightarrow> string \<Rightarrow> bool" where
  "py_endswith s p = (length p \<le> length s \<and> drop (length s - length p) s = p)"

text \<open>\<open>s.split(c)\<close> for a separator of one character: every occurrence splits.\<close>

fun py_split :: "char \<Rightarrow> string \<Rightarrow> string list" where
  "py_split c [] = [[]]"
| "py_split c (x # xs) =
     (if x = c then [] # py_split c xs
      else (case py_split c xs of [] \<Rightarrow> [[x]] | w # ws \<Rightarrow> (x # w) # ws))"

text \<open>\<open>s.split(c, 1)\<close>: at most one split, at the first occurrence.\<close>

definition py_split1 :: "char \<Rightarrow> string \<Rightarrow> string list" where
  "py_split1 c s =
     (if c \<in> set s then [takeWhile (\<lambda>x. x \<noteq> c) s, tl (dropWhile (\<lambda>x. x \<noteq> c) s)] else [s])"

text \<open>\<open>xs[i]\<close> for a non-negative index: IndexError out of range.\<close>

definition py_index :: "'a list \<Rightarrow> nat \<Rightarrow> exn + 'a" where
  "py_index xs i = (if i < length xs then Inr (xs ! i) else Inl IndexError)"

text \<open>
  \<open>os.path.join\<close> of \<open>posixpath\<close>: a component that starts with a slash replaces what came
  before; otherwise it is appended, after a slash unless the path is empty or ends with one.
\<close>

fun posix_join_step :: "string \<Rightarrow> string \<Rightarrow> string" where
  "posix_join_step path b =
     (if py_startswith b ''/'' then b
      else if path = [] \<or> py_endswith path ''/'' then path @ b
      else path @ ''/'' @ b)"

definition os_path_join :: "string \<Rightarrow> string list \<Rightarrow> string" where
  "os_path_join a ps = foldl posix_join_step a ps"

text \<open>
  A file opened for reading in text mode yields its lines one by one; the read can fail
  after some of them (an I/O error, an undecodable byte). \<open>File ls None\<close> is a file whose
  lines are \<open>ls\<close> (each with its line end); \<open>File ls (Some e)\<close> raises \<open>e\<close> once \<open>ls\<close> have
  been read.
\<close>

datatype text_file = File "string list" "exn option"

text \<open>\<open>f.read()\<close>: the whole content, or the exception.\<close>

fun file_read :: "text_file \<Rightarrow> exn + string" where
  "file_read (File ls None) = Inr (concat ls)"
| "file_read (File ls (Some e)) = Inl e"

text \<open>
  What a script sees of the operating system: \<open>os.name\<close>, \<open>os.path.exists\<close> and the
  built-in \<open>open\<close> (which can raise even where \<open>exists\<close> said yes).
\<close>

record os_state =
  os_name :: string
  path_exists :: "string \<Rightarrow> bool"
  open_r :: "string \<Rightarrow> exn + text_file"

section \<open>stress\_long.py and ml\_benchmark.py: the probing functions\<close>

text \<open>
  The loop of \<open>read_linux_cpu_affinity\<close> over the lines of \<open>/proc/self/status\<close>, inside
  its \<open>try\<close>: the first line that starts with \<open>Cpus_allowed_list:\<close> returns.
\<close>

fun scan_status :: "string list \<Rightarrow> exn option \<Rightarrow> exn + string option" where
  "scan_status [] None = Inr None"
| "scan_status [] (Some e) = Inl e"
| "scan_status (line # rest) err =
     (if py_startswith line ''Cpus_allowed_list:''
      then (case py_index (py_split1 CHR '':'' line) 1 of
              Inl e \<Rightarrow> Inl e
            | Inr v \<Rightarrow> Inr (Some (py_strip v)))
      else scan_status rest err)"

definition read_linux_cpu_affinity :: "os_state \<Rightarrow> exn + string option" where
  "read_linux_cpu_affinity os =
     (if os_name os \<noteq> ''posix'' \<or> \<not> path_exists os ''/proc/self/status'' then Inr None
      else (case (case open_r os ''/proc/self/status'' of
                    Inl e \<Rightarrow> Inl e
                  | Inr (File ls err) \<Rightarrow> scan_status ls err) of
              Inl e \<Rightarrow> Inr None
            | Inr v \<Rightarrow> Inr v))"

text \<open>
  The loop of \<open>read_linux_cgroup_cpuset\<close> over the lines of \<open>/proc/self/cgroup\<close>. The inner
  \<open>try\<close> around the read of \<open>cpuset.cpus\<close> returns on both of its paths.
\<close>

fun scan_cgroup :: "os_state \<Rightarrow> string list \<Rightarrow> exn option \<Rightarrow> exn + string option" where
  "scan_cgroup os [] None = Inr None"
| "scan_cgroup os [] (Some e) = Inl e"
| "scan_cgroup os (line # rest) err =
     (let parts = py_split CHR '':'' (py_strip line) in
      if length parts = 3 \<and> parts ! 0 = ''0'' then
        (let path = parts ! 2;
             cpuset_path = os_path_join ''/sys/fs/cgroup''
                             [py_lstrip_chars ''/'' path, ''cpuset.cpus'']
         in if path_exists os cpuset_path then
              (case (case open_r os cpuset_path of
                       Inl e \<Rightarrow> Inl e
                     | Inr cf \<Rightarrow> file_read cf) of
                 Inl e \<Rightarrow> Inr None
               | Inr s \<Rightarrow> Inr (Some (py_strip s)))
            else scan_cgroup os rest err)
      else scan_cgroup os rest err)"

definition read_linux_cgroup_cpuset :: "os_state \<Rightarrow> exn + string option" where
  "read_linux_cgroup_cpuset os =
     (if os_name os \<noteq> ''posix'' then Inr None
      else if \<not> path_exists os ''/proc/self/cgroup'' then Inr None
      else (case (case open_r os ''/proc/self/cgroup'' of
                    Inl e \<Rightarrow> Inl e
                  | Inr (File ls err) \<Rightarrow> scan_cgroup os ls err) of
              Inl e \<Rightarrow> Inr None
            | Inr v \<Rightarrow> Inr v))"

section \<open>Clocks, threads and output\<close>

text \<open>
  \<open>time.time()\<close> is read from outside the program. Each thread has its own sequence of
  readings: its \<open>k\<close>-th call of \<open>time.time()\<close> returns \<open>clock k\<close>, in seconds. Nothing is
  assumed about the readings; a loop that polls a clock which never reaches its bound
  does not return (\<open>None\<close>).
\<close>

type_synonym clock = "nat \<Rightarrow> real"

text \<open>\<open>sum(range(n))\<close>, the busy work of the CPU workers.\<close>

definition py_sum_range :: "nat \<Rightarrow> int" where
  "py_sum_range n = (\<Sum>i<n. int i)"

datatype device = Cuda | Cpu

text \<open>The target and arguments of a \<open>threading.Thread\<close>.\<close>

datatype target = Cpu_burn real | Cpu_burner nat

text \<open>The lines the scripts print, one constructor for each \<open>print\<close> of the sources.\<close>

datatype line =
    Stress_setup
  | Platform string
  | Python_version string
  | Cuda_visible_devices string
  | Cuda_available_true int string "int \<times> int"
  | Cuda_device_count int
  | Cuda_available_false_will_run_gpu_loop_on_cpu
  | Cpu_affinity string
  | Cgroup_cpuset string
  | Setup_end
  | Gpu_loop_error
  | Done
  | Host_pid string int
  | Allowed_cpus "nat list"
  | Launching_workers nat
  | Done_all_allowed_cpus_loaded
  | Check_with_mpstat
  | Rank_cgroup int string
  | Numa_memory_nodes
  | Allowed_nodes string
  | Numa_binding_detected
  | Multiple_numa_nodes
  | Could_not_find_mems_allowed_list
  | Memory_error_reading_status_file
  | Could_not_check exn
  | Blank_line

text \<open>
  What a run does, in order. \<open>Thread_start t d\<close> has \<open>d\<close> for \<open>daemon\<close>;
  \<open>Sched_setaffinity cpu ok\<close> is the call \<open>os.sched_setaffinity(0, {cpu})\<close>, with \<open>ok\<close> false
  when it raised.
\<close>

datatype event =
    Print line
  | Thread_start target bool
  | Thread_join "real option"
  | Randn device int
  | Matmul device
  | Cuda_synchronize
  | Sleep real
  | Sched_setaffinity nat bool
  | Sum_range nat

text \<open>
  \<open>Thread.join(timeout)\<close> on a thread whose run is \<open>w\<close> (\<open>None\<close> for a thread that never
  returns): with a timeout the call returns when the thread has ended or the timeout has
  passed; without one it returns only when the thread has ended.
\<close>

fun thread_join :: "real option \<Rightarrow> 'a option \<Rightarrow> unit option" where
  "thread_join (Some timeout) w = Some ()"
| "thread_join None (Some r) = Some ()"
| "thread_join None None = None"

fun join_all :: "real option \<Rightarrow> 'a option list \<Rightarrow> event list option" where
  "join_all timeout [] = Some []"
| "join_all timeout (t # ts) =
     (case thread_join timeout t of
        None \<Rightarrow> None
      | Some u \<Rightarrow> (case join_all timeout ts of
                    None \<Rightarrow> None
                  | Some js \<Rightarrow> Some (Thread_join timeout # js)))"


section \<open>stress\_long.py: the load generator\<close>

record args =
  seconds :: int
  cpu_threads :: int
  matrix :: int

text \<open>
  PyTorch is an outside capability: whether CUDA is available, and which calls raise
  \<open>RuntimeError\<close> (the allocation for a device and dimension, the \<open>k\<close>-th product, the
  \<open>k\<close>-th synchronisation).
\<close>

record torch =
  cuda_is_available :: bool
  randn_raises :: "device \<Rightarrow> int \<Rightarrow> bool"
  matmul_raises :: "device \<Rightarrow> nat \<Rightarrow> bool"
  synchronize_raises :: "nat \<Rightarrow> bool"

text \<open>The values the header of the report interpolates.\<close>

record sysinfo =
  platform_platform :: string
  python_version :: string
  env_cuda_visible_devices :: string
  current_device :: int
  device_name :: string
  device_capability :: "int \<times> int"
  device_count :: int

text \<open>
  \<open>cpu_burn(stop_time)\<close>: the result is the sum and the index of the reading that ended
  the loop.
\<close>

partial_function (option) cpu_burn_while :: "clock \<Rightarrow> real \<Rightarrow> nat \<Rightarrow> int \<Rightarrow> (int \<times> nat) option" where
  "cpu_burn_while clock stop_time k s =
     (if clock k < stop_time
      then cpu_burn_while clock stop_time (Suc k) (s + py_sum_range 50000)
      else Some (s, k))"

definition cpu_burn :: "clock \<Rightarrow> real \<Rightarrow> (int \<times> nat) option" where
  "cpu_burn clock stop_time = cpu_burn_while clock stop_time 0 0"

text \<open>
  \<open>gpu_loop(device, n, stop_time)\<close>, polling the caller's clock from reading \<open>k\<close> on. The
  result is the exception or the normal return, with the events of the loop and the index
  of the last reading.
\<close>

partial_function (option) gpu_while ::
    "torch \<Rightarrow> clock \<Rightarrow> device \<Rightarrow> real \<Rightarrow> nat \<Rightarrow> event list \<Rightarrow> ((exn + unit) \<times> event list \<times> nat) option" where
  "gpu_while T clock device stop_time k tr =
     (if clock k < stop_time then
        (if matmul_raises T device k then Some (Inl RuntimeError, tr @ [Matmul device], k)
         else if device = Cuda \<and> synchronize_raises T k
           then Some (Inl RuntimeError, tr @ [Matmul device, Cuda_synchronize], k)
         else gpu_while T clock device stop_time (Suc k)
                (tr @ [Matmul device] @ (if device = Cuda then [Cuda_synchronize] else [])
                    @ [Sleep 0.005]))
      else Some (Inr (), tr, k))"

definition gpu_loop ::
    "torch \<Rightarrow> clock \<Rightarrow> device \<Rightarrow> int \<Rightarrow> real \<Rightarrow> nat \<Rightarrow> ((exn + unit) \<times> event list \<times> nat) option" where
  "gpu_loop T clock device n stop_time k =
     (if randn_raises T device n then Some (Inl RuntimeError, [Randn device n], k)
      else gpu_while T clock device stop_time k [Randn device n])"

text \<open>The device chosen by \<open>main\<close> and the lines it prints about it.\<close>

definition select_device :: "sysinfo \<Rightarrow> torch \<Rightarrow> event list \<times> device" where
  "select_device si T =
     (if cuda_is_available T
      then ([Print (Cuda_available_true (current_device si) (device_name si)
                      (device_capability si)),
             Print (Cuda_device_count (device_count si))], Cuda)
      else ([Print Cuda_available_false_will_run_gpu_loop_on_cpu], Cpu))"

text \<open>\<open>if v: print(...)\<close> for an optional string: \<open>None\<close> and the empty string print nothing.\<close>

fun print_if :: "(string \<Rightarrow> line) \<Rightarrow> string option \<Rightarrow> event list" where
  "print_if f None = []"
| "print_if f (Some s) = (if s = [] then [] else [Print (f s)])"

text \<open>
  \<open>main()\<close> with the parsed arguments \<open>a\<close>. The main thread reads \<open>clock\<close>: reading 0 gives
  the stop time, the GPU loop polls from reading 1 on. Worker \<open>i\<close> reads \<open>wclock i\<close>. The
  result is \<open>None\<close> when \<open>main\<close> never returns, \<open>Inl\<close> an uncaught exception, \<open>Inr\<close> the events
  of a run that returned.
\<close>

definition stop_time_of :: "clock \<Rightarrow> args \<Rightarrow> real" where
  "stop_time_of clock a = clock 0 + of_int (max 5 (seconds a))"

definition worker_runs :: "(nat \<Rightarrow> clock) \<Rightarrow> clock \<Rightarrow> args \<Rightarrow> (int \<times> nat) option list" where
  "worker_runs wclock clock a =
     map (\<lambda>i. cpu_burn (wclock i) (stop_time_of clock a)) [0..<nat (max 1 (cpu_threads a))]"

definition main ::
    "sysinfo \<Rightarrow> torch \<Rightarrow> os_state \<Rightarrow> clock \<Rightarrow> (nat \<Rightarrow> clock) \<Rightarrow> args \<Rightarrow> (exn + event list) option" where
  "main si T os clock wclock a =
     (let header = [Print Stress_setup, Print (Platform (platform_platform si)),
                    Print (Python_version (python_version si)),
                    Print (Cuda_visible_devices (env_cuda_visible_devices si))];
          (dev_lines, device) = select_device si T
      in case read_linux_cpu_affinity os of
           Inl e \<Rightarrow> Some (Inl e)
         | Inr cpu_aff \<Rightarrow>
       (case read_linux_cgroup_cpuset os of
           Inl e \<Rightarrow> Some (Inl e)
         | Inr cg_cpuset \<Rightarrow>
       (let probe = print_if Cpu_affinity cpu_aff @ print_if Cgroup_cpuset cg_cpuset
                      @ [Print Setup_end];
            stop_time = stop_time_of clock a;
            threads = worker_runs wclock clock a;
            starts = map (\<lambda>t. Thread_start (Cpu_burn stop_time) True) threads
        in case gpu_loop T clock device (matrix a) stop_time 1 of
             None \<Rightarrow> None
           | Some (Inl e, gtr, k) \<Rightarrow>
               (if e = RuntimeError
                then (case join_all (Some 1) threads of
                        None \<Rightarrow> None
                      | Some joins \<Rightarrow>
                          Some (Inr (header @ dev_lines @ probe @ starts @ gtr
                                       @ [Print Gpu_loop_error] @ joins @ [Print Done])))
                else Some (Inl e))
           | Some (Inr u, gtr, k) \<Rightarrow>
               (case join_all (Some 1) threads of
                  None \<Rightarrow> None
                | Some joins \<Rightarrow>
                    Some (Inr (header @ dev_lines @ probe @ starts @ gtr
                                 @ joins @ [Print Done]))))))"

section \<open>cpu\_partition\_stress.py\<close>

text \<open>
  The scheduler calls of \<open>os\<close>: \<open>sched_getaffinity(0)\<close> gives a set of CPU numbers or
  raises (\<open>AttributeError\<close> where the platform has no such call), \<open>cpu_count()\<close> gives a
  number or \<open>None\<close>, and \<open>sched_setaffinity(0, {cpu})\<close> raises for some CPUs.
\<close>

record sched =
  sched_getaffinity :: "exn + nat fset"
  cpu_count :: "nat option"
  sched_setaffinity_raises :: "nat \<Rightarrow> bool"

text \<open>
  The module-level \<open>try\<close> that computes \<open>affinity\<close>. The handler calls
  \<open>list(range(os.cpu_count()))\<close>, and \<open>range(None)\<close> raises \<open>TypeError\<close> outside any \<open>try\<close>.
\<close>

definition affinity :: "sched \<Rightarrow> exn + nat list" where
  "affinity S =
     (case sched_getaffinity S of
        Inr cpus \<Rightarrow> Inr (sorted_list_of_fset cpus)
      | Inl e \<Rightarrow> (case cpu_count S of None \<Rightarrow> Inl TypeError | Some c \<Rightarrow> Inr [0..<c]))"

text \<open>
  \<open>cpu_burner(cpu)\<close>: the pinning attempt, whose exception is passed over, then the busy
  loop for 20 seconds from the worker's own first reading \<open>t0\<close>. The result is the events
  of the worker and the index of the reading that ended the loop.
\<close>

partial_function (option) cpu_burner_while ::
    "clock \<Rightarrow> real \<Rightarrow> nat \<Rightarrow> event list \<Rightarrow> (event list \<times> nat) option" where
  "cpu_burner_while clock t0 k tr =
     (if clock k - t0 < 20
      then cpu_burner_while clock t0 (Suc k) (tr @ [Sum_range 10000])
      else Some (tr, k))"

definition cpu_burner :: "sched \<Rightarrow> clock \<Rightarrow> nat \<Rightarrow> (event list \<times> nat) option" where
  "cpu_burner S clock cpu =
     (let pin = (if sched_setaffinity_raises S cpu
                 then [Sched_setaffinity cpu False]
                 else [Sched_setaffinity cpu True]);
          t0 = clock 0
      in cpu_burner_while clock t0 1 pin)"

text \<open>
  The script: the report, one thread for each CPU of \<open>affinity\<close>, the joins without a
  timeout, the closing lines. The worker for CPU \<open>c\<close> reads the clock \<open>wclock c\<close>.
\<close>

definition start_workers :: "nat list \<Rightarrow> event list" where
  "start_workers aff = map (\<lambda>cpu. Thread_start (Cpu_burner cpu) True) aff"

definition cpu_partition_stress ::
    "string \<Rightarrow> int \<Rightarrow> sched \<Rightarrow> (nat \<Rightarrow> clock) \<Rightarrow> (exn + event list) option" where
  "cpu_partition_stress hostname pid S wclock =
     (case affinity S of
        Inl e \<Rightarrow> Some (Inl e)
      | Inr aff \<Rightarrow>
          (let report = [Print (Host_pid hostname pid), Print (Allowed_cpus aff),
                         Print (Launching_workers (length aff))];
               threads = map (\<lambda>cpu. cpu_burner S (wclock cpu) cpu) aff
           in case join_all None threads of
                None \<Rightarrow> None
              | Some joins \<Rightarrow>
                  Some (Inr (report @ start_workers aff @ joins
                               @ [Print Done_all_allowed_cpus_loaded, Print Check_with_mpstat]))))"

section \<open>mpi\_cpu\_test\_buffers.py and mpi\_mig\_test.py: the ring exchange\<close>

text \<open>
  \<open>np.full(n, v, dtype=np.int32)\<close>: \<open>n\<close> copies of \<open>v\<close> as 32-bit integers; a Python integer
  outside the range of \<open>int32\<close> raises \<open>OverflowError\<close>.
\<close>

definition np_full_int32 :: "nat \<Rightarrow> int \<Rightarrow> exn + 32 word list" where
  "np_full_int32 n v =
     (if - (2 ^ 31) \<le> v \<and> v < 2 ^ 31 then Inr (replicate n (word_of_int v))
      else Inl OverflowError)"

text \<open>\<open>np.all(buf == v)\<close> for an \<open>int32\<close> array and a Python integer.\<close>

definition np_all_eq :: "32 word list \<Rightarrow> int \<Rightarrow> bool" where
  "np_all_eq buf v = list_all (\<lambda>w. sint w = v) buf"

definition ring_src :: "int \<Rightarrow> int \<Rightarrow> int" where
  "ring_src rank sz = (rank - 1) mod sz"

definition ring_dst :: "int \<Rightarrow> int \<Rightarrow> int" where
  "ring_dst rank sz = (rank + 1) mod sz"

text \<open>A message in flight: the rank that sent it, its destination, its tag, its data.\<close>

record message =
  sender :: int
  dest :: int
  tag :: int
  payload :: "32 word list"

text \<open>
  The \<open>Isend\<close> of one participant, and the sends of all the participants \<open>0..size-1\<close> of
  \<open>COMM_WORLD\<close>. A participant whose buffer could not be built sends nothing.
\<close>

definition isend :: "int \<Rightarrow> int \<Rightarrow> message list" where
  "isend rank sz =
     (case np_full_int32 8 rank of
        Inl e \<Rightarrow> []
      | Inr sendbuf \<Rightarrow>
          [\<lparr>sender = rank, dest = ring_dst rank sz, tag = 100, payload = sendbuf\<rparr>])"

definition posted_sends :: "int \<Rightarrow> message list" where
  "posted_sends sz = concat (map (\<lambda>rank. isend rank sz) [0..sz - 1])"

text \<open>
  \<open>Irecv(recvbuf, source, tag)\<close> followed by \<open>Waitall\<close>: the receive completes with the
  first message for this rank from that source with that tag; with no such message the
  wait never ends (\<open>None\<close>).
\<close>

definition irecv_wait :: "message list \<Rightarrow> int \<Rightarrow> int \<Rightarrow> int \<Rightarrow> 32 word list option" where
  "irecv_wait net rank source t =
     map_option payload (find (\<lambda>m. dest m = rank \<and> sender m = source \<and> tag m = t) net)"

text \<open>
  What \<open>main\<close> does on the participant \<open>rank\<close> of \<open>size\<close> (\<open>sz\<close>): the early return below two
  participants, or the received buffer and the flag \<open>ok\<close>.
\<close>

datatype ring_result = Too_few_processes | Exchanged "32 word list" bool

definition ring_main :: "int \<Rightarrow> int \<Rightarrow> (exn + ring_result) option" where
  "ring_main sz rank =
     (if sz < 2 then Some (Inr Too_few_processes)
      else (case np_full_int32 8 rank of
              Inl e \<Rightarrow> Some (Inl e)
            | Inr sendbuf \<Rightarrow>
                (let src = ring_src rank sz;
                     dst = ring_dst rank sz
                 in case irecv_wait (posted_sends sz) rank src 100 of
                      None \<Rightarrow> None
                    | Some recvbuf \<Rightarrow> Some (Inr (Exchanged recvbuf (np_all_eq recvbuf src))))))"

section \<open>The command line: argparse\<close>







text \<open>\<open>str(i)\<close> for an integer, as a shell would pass it on the command line.\<close>

fun str_nat :: "nat \<Rightarrow> string" where
  "str_nat n =
     (if n < 10 then [char_of (48 + n)]
      else str_nat (n div 10) @ [char_of (48 + n mod 10)])"

declare str_nat.simps [simp del]

definition str_int :: "int \<Rightarrow> string" where
  "str_int i = (if i < 0 then CHR ''-'' # str_nat (nat (- i)) else str_nat (nat i))"






















section \<open>mpi\_mig\_test.py and simple\_test.py: the other probes\<close>

text \<open>\<open>sub in s\<close> for strings, and \<open>s.split(sep)\<close> for a separator of any length.\<close>

fun py_contains :: "string \<Rightarrow> string \<Rightarrow> bool" where
  "py_contains sub [] = (sub = [])"
| "py_contains sub (x # xs) = (py_startswith (x # xs) sub \<or> py_contains sub xs)"

fun py_split_str :: "string \<Rightarrow> string \<Rightarrow> string list" where
  "py_split_str sep [] = [[]]"
| "py_split_str sep (x # xs) =
     (if sep \<noteq> [] \<and> py_startswith (x # xs) sep
      then [] # py_split_str sep (drop (length sep - 1) xs)
      else (case py_split_str sep xs of [] \<Rightarrow> [[x]] | w # ws \<Rightarrow> (x # w) # ws))"

text \<open>\<open>f.readlines()\<close>: all the lines, or the exception of the read.\<close>

fun file_readlines :: "text_file \<Rightarrow> exn + string list" where
  "file_readlines (File ls None) = Inr ls"
| "file_readlines (File ls (Some e)) = Inl e"

text \<open>
  \<open>get_cgroup()\<close> of \<open>mpi_mig_test.py\<close> for the process \<open>pid\<close>: the loop over the lines
  that were read, then the function with its bare \<open>except\<close>, which returns the string
  \<open>error\<close>.
\<close>

fun scan_mig :: "string list \<Rightarrow> string option" where
  "scan_mig [] = None"
| "scan_mig (line # rest) =
     (if py_contains ''mig'' line
      then (let parts = py_split_str ''::'' line
            in if length parts > 1 then Some (py_strip (parts ! 1)) else scan_mig rest)
      else scan_mig rest)"

definition get_cgroup :: "os_state \<Rightarrow> int \<Rightarrow> exn + string" where
  "get_cgroup os pid =
     (case (case open_r os (''/proc/'' @ str_int pid @ ''/cgroup'') of
              Inl e \<Rightarrow> Inl e
            | Inr f \<Rightarrow> (case file_readlines f of
                          Inl e \<Rightarrow> Inl e
                        | Inr ls \<Rightarrow> (case scan_mig ls of
                                        Some c \<Rightarrow> Inr c
                                      | None \<Rightarrow> Inr ''no mig cgroup''))) of
        Inl e \<Rightarrow> Inr ''error''
      | Inr c \<Rightarrow> Inr c)"

text \<open>The line of the report of \<open>mpi_mig_test.py\<close> for the cgroup of a rank.\<close>

definition report_cgroup :: "os_state \<Rightarrow> int \<Rightarrow> int \<Rightarrow> exn + line" where
  "report_cgroup os pid rank =
     (case get_cgroup os pid of Inl e \<Rightarrow> Inl e | Inr c \<Rightarrow> Inr (Rank_cgroup rank c))"

text \<open>
  The part \<open>4. NUMA memory\<close> of \<open>simple_test.py\<close> for the process \<open>pid\<close>: the loop over
  the lines of \<open>/proc/pid/status\<close> up to the first one that has \<open>Mems_allowed_list\<close>, then
  the lines the part prints, with its handlers.
\<close>

fun scan_mems :: "string list \<Rightarrow> exn option \<Rightarrow> exn + line list option" where
  "scan_mems [] None = Inr None"
| "scan_mems [] (Some e) = Inl e"
| "scan_mems (line # rest) err =
     (if py_contains ''Mems_allowed_list'' line
      then (case py_index (py_split CHR '':'' line) 1 of
              Inl e \<Rightarrow> Inl e
            | Inr v \<Rightarrow>
                (let mems = py_strip v
                 in Inr (Some ([Allowed_nodes mems]
                      @ (if length mems \<le> 3 then [Numa_binding_detected]
                         else [Multiple_numa_nodes])))))
      else scan_mems rest err)"

definition numa_memory :: "os_state \<Rightarrow> int \<Rightarrow> line list" where
  "numa_memory os pid =
     [Numa_memory_nodes]
     @ (case (case open_r os (''/proc/'' @ str_int pid @ ''/status'') of
                Inl e \<Rightarrow> Inl e
              | Inr (File ls err) \<Rightarrow> scan_mems ls err) of
          Inr (Some out) \<Rightarrow> out
        | Inr None \<Rightarrow> [Could_not_find_mems_allowed_list]
        | Inl e \<Rightarrow> (if e = MemoryError then [Memory_error_reading_status_file]
                     else [Could_not_check e]))
     @ [Blank_line]"

text \<open>
  A Linux system on which the read of \<open>/proc/7/cgroup\<close> fails after its first line.
\<close>

definition os_cgroup_io_error :: os_state where
  "os_cgroup_io_error = \<lparr>os_name = ''posix'', path_exists = (\<lambda>p. True),
     open_r = (\<lambda>p.
       if p = ''/proc/7/cgroup'' then Inr (File [''0::/mig/mig0\<newline>''] (Some OSError))
       else Inl OSError)\<rparr>"

section \<open>Reading a run\<close>

text \<open>The threads a run started, the timeouts of its joins, the lines it printed.\<close>

fun started :: "event list \<Rightarrow> target list" where
  "started [] = []"
| "started (Thread_start t d # es) = t # started es"
| "started (e # es) = started es"

fun join_timeouts :: "event list \<Rightarrow> real option list" where
  "join_timeouts [] = []"
| "join_timeouts (Thread_join timeout # es) = timeout # join_timeouts es"
| "join_timeouts (e # es) = join_timeouts es"

fun printed :: "event list \<Rightarrow> line list" where
  "printed [] = []"
| "printed (Print l # es) = l # printed es"
| "printed (e # es) = printed es"

text \<open>The devices of the allocations and products of a run, and its synchronisations.\<close>

fun devices_used :: "event list \<Rightarrow> device list" where
  "devices_used [] = []"
| "devices_used (Randn d n # es) = d # devices_used es"
| "devices_used (Matmul d # es) = d # devices_used es"
| "devices_used (Cuda_synchronize # es) = Cuda # devices_used es"
| "devices_used (e # es) = devices_used es"

fun matmuls :: "event list \<Rightarrow> nat" where
  "matmuls [] = 0"
| "matmuls (Matmul d # es) = Suc (matmuls es)"
| "matmuls (e # es) = matmuls es"

text \<open>
  What \<open>gpu_while\<close> guarantees of a result \<open>(r, tr', k')\<close> reached from reading \<open>k\<close> with the
  events \<open>tr\<close>: only \<open>RuntimeError\<close> is raised, the events grow by allocations, products,
  synchronisations and sleeps on the device \<open>d\<close>, every reading before \<open>k'\<close> was below the
  stop time, and on a normal return the reading \<open>k'\<close> has reached it, after one product for
  each earlier reading.
\<close>

definition gpu_post :: "clock \<Rightarrow> device \<Rightarrow> real \<Rightarrow> nat \<Rightarrow> event list \<Rightarrow> ((exn + unit) \<times> event list \<times> nat) \<Rightarrow> bool" where
  "gpu_post clock d stop k tr y =
     (case y of (r, tr', k') \<Rightarrow>
        (r = Inl RuntimeError \<or> r = Inr ()) \<and> k \<le> k'
      \<and> started tr' = started tr \<and> join_timeouts tr' = join_timeouts tr
      \<and> printed tr' = printed tr
      \<and> set tr \<subseteq> set tr'
      \<and> set (devices_used tr') \<subseteq> set (devices_used tr) \<union> {d}
      \<and> (\<forall>i. k \<le> i \<and> i < k' \<longrightarrow> clock i < stop)
      \<and> (r = Inr () \<longrightarrow> stop \<le> clock k' \<and> matmuls tr' = matmuls tr + (k' - k)))"

text \<open>The lines of \<open>main\<close> before the threads are started.\<close>

definition main_header :: "sysinfo \<Rightarrow> torch \<Rightarrow> os_state \<Rightarrow> event list" where
  "main_header si T os =
     [Print Stress_setup, Print (Platform (platform_platform si)),
      Print (Python_version (python_version si)),
      Print (Cuda_visible_devices (env_cuda_visible_devices si))]
     @ fst (select_device si T)
     @ print_if Cpu_affinity (projr (read_linux_cpu_affinity os))
     @ print_if Cgroup_cpuset (projr (read_linux_cgroup_cpuset os))
     @ [Print Setup_end]"

section \<open>Some concrete machines\<close>

definition sysinfo0 :: sysinfo where
  "sysinfo0 = \<lparr>platform_platform = ''Linux'', python_version = ''3.10.12'',
     env_cuda_visible_devices = ''<unset>'', current_device = 0, device_name = [],
     device_capability = (0, 0), device_count = 0\<rparr>"

text \<open>A PyTorch without CUDA on which no call raises.\<close>

definition torch_no_cuda :: torch where
  "torch_no_cuda = \<lparr>cuda_is_available = False, randn_raises = (\<lambda>d n. False),
     matmul_raises = (\<lambda>d k. False), synchronize_raises = (\<lambda>k. False)\<rparr>"

text \<open>A POSIX system without \<open>/proc\<close> and \<open>/sys\<close>.\<close>

definition os_no_proc :: os_state where
  "os_no_proc = \<lparr>os_name = ''posix'', path_exists = (\<lambda>p. False), open_r = (\<lambda>p. Inl OSError)\<rparr>"


definition sched_fallback :: sched where
  "sched_fallback = \<lparr>sched_getaffinity = Inl AttributeError, cpu_count = Some 2,
     sched_setaffinity_raises = (\<lambda>cpu. False)\<rparr>"

definition sched_direct :: sched where
  "sched_direct = \<lparr>sched_getaffinity = Inr {|0, 1|}, cpu_count = Some 2,
     sched_setaffinity_raises = (\<lambda>cpu. False)\<rparr>"

definition sched_pin_fails :: sched where
  "sched_pin_fails = \<lparr>sched_getaffinity = Inr {|0|}, cpu_count = Some 1,
     sched_setaffinity_raises = (\<lambda>cpu. True)\<rparr>"

text \<open>
  A Linux system in the cgroup \<open>/mig/mig0\<close> whose files read well, and one on which the
  read of \<open>/proc/self/status\<close> fails after its first line.
\<close>

definition os_mig :: os_state where
  "os_mig = \<lparr>os_name = ''posix'', path_exists = (\<lambda>p. True),
     open_r = (\<lambda>p.
       if p = ''/proc/self/status''
         then Inr (File [''Name: python3\<newline>'', ''Cpus_allowed_list: 0-3\<newline>''] None)
       else if p = ''/proc/self/cgroup'' then Inr (File [''0::/mig/mig0\<newline>''] None)
       else if p = ''/sys/fs/cgroup/mig/mig0/cpuset.cpus'' then Inr (File [''0-3\<newline>''] None)
       else Inl OSError)\<rparr>"

definition os_io_error :: os_state where
  "os_io_error = \<lparr>os_name = ''posix'', path_exists = (\<lambda>p. True),
     open_r = (\<lambda>p.
       if p = ''/proc/self/status'' then Inr (File [''Name: python3\<newline>''] (Some OSError))
       else if p = ''/proc/self/cgroup'' then Inr (File [''0::/mig/mig0\<newline>''] None)
       else Inl OSError)\<rparr>"


section \<open>Command lines made of recognized options\<close>













section \<open>Lemmas: reading a run\<close>

lemma started_append: "started (xs @ ys) = started xs @ started ys"
  by (induction xs rule: started.induct) simp_all

lemma join_timeouts_append: "join_timeouts (xs @ ys) = join_timeouts xs @ join_timeouts ys"
  by (induction xs rule: join_timeouts.induct) simp_all

lemma printed_append: "printed (xs @ ys) = printed xs @ printed ys"
  by (induction xs rule: printed.induct) simp_all

lemma devices_used_append: "devices_used (xs @ ys) = devices_used xs @ devices_used ys"
  by (induction xs rule: devices_used.induct) simp_all

lemma matmuls_append: "matmuls (xs @ ys) = matmuls xs + matmuls ys"
  by (induction xs rule: matmuls.induct) simp_all

lemmas observe_append = started_append join_timeouts_append printed_append devices_used_append matmuls_append

lemma gpu_while_post:
  assumes "gpu_while T clock d stop k tr = Some y"
  shows "gpu_post clock d stop k tr y"
proof (rule gpu_while.raw_induct
    [where P = "\<lambda>T clock d stop k tr y. gpu_post clock d stop k tr y", OF _ assms], goal_cases)
  case (1 gw T clock d stop k tr y)
  show ?case
  proof (cases "clock k < stop")
    case False
    with 1(2) show ?thesis by (auto simp: gpu_post_def)
  next
    case True
    note lt = this
    show ?thesis
    proof (cases "matmul_raises T d k \<or> (d = Cuda \<and> synchronize_raises T k)")
      case True
      with lt 1(2) show ?thesis
        by (auto simp: gpu_post_def observe_append split: if_splits)
    next
      case False
      with lt 1(2) have rec: "gw T clock d stop (Suc k)
          (tr @ [Matmul d] @ (if d = Cuda then [Cuda_synchronize] else []) @ [Sleep 0.005]) = Some y"
        by (simp split: if_splits)
      from 1(1)[OF rec] have ih: "gpu_post clock d stop (Suc k)
          (tr @ [Matmul d] @ (if d = Cuda then [Cuda_synchronize] else []) @ [Sleep 0.005]) y" .
      obtain r tr' k' where y: "y = (r, tr', k')" by (cases y)
      have all: "\<forall>i. k \<le> i \<and> i < k' \<longrightarrow> clock i < stop"
      proof (intro allI impI)
        fix i assume a: "k \<le> i \<and> i < k'"
        show "clock i < stop"
        proof (cases "i = k")
          case True then show ?thesis using lt by simp
        next
          case False
          with a have "Suc k \<le> i \<and> i < k'" by simp
          with ih y show ?thesis by (simp add: gpu_post_def)
        qed
      qed
      from ih y all show ?thesis
        by (auto simp: gpu_post_def observe_append split: if_splits)
    qed
  qed
qed

lemma gpu_while_returns:
  "k \<le> j \<Longrightarrow> stop \<le> clock j \<Longrightarrow> \<exists>y. gpu_while T clock d stop k tr = Some y"
proof (induction "j - k" arbitrary: k tr)
  case 0
  then have "\<not> clock k < stop" by simp
  then show ?case by (subst gpu_while.simps) simp
next
  case (Suc n)
  show ?case
  proof (cases "clock k < stop")
    case False
    then show ?thesis by (subst gpu_while.simps) simp
  next
    case True
    with Suc.prems have "k \<noteq> j" by auto
    with Suc.prems have le: "Suc k \<le> j" by simp
    have n: "n = j - Suc k" using Suc.hyps(2) by simp
    from Suc.hyps(1)[OF n le Suc.prems(2)]
    have "\<exists>y. gpu_while T clock d stop (Suc k)
          (tr @ [Matmul d] @ (if d = Cuda then [Cuda_synchronize] else []) @ [Sleep 0.005]) = Some y" .
    then show ?thesis using True by (subst gpu_while.simps) auto
  qed
qed

lemma gpu_loop_returns:
  assumes "k \<le> j" "stop \<le> clock j"
  shows "\<exists>r gtr k'. gpu_loop T clock d n stop k = Some (r, gtr, k')
           \<and> gpu_post clock d stop k [Randn d n] (r, gtr, k')"
proof (cases "randn_raises T d n")
  case True
  then show ?thesis by (simp add: gpu_loop_def gpu_post_def)
next
  case False
  from gpu_while_returns[where clock = clock and j = j and k = k and stop = stop
      and T = T and d = d and tr = "[Randn d n]", OF assms]
  obtain y where y: "gpu_while T clock d stop k [Randn d n] = Some y" by blast
  obtain r gtr k' where "y = (r, gtr, k')" by (cases y)
  with y gpu_while_post[OF y] False show ?thesis by (simp add: gpu_loop_def)
qed

lemma join_all_timeout:
  "join_all (Some t) ws = Some (replicate (length ws) (Thread_join (Some t)))"
  by (induction ws) simp_all

lemma read_linux_cpu_affinity_total: "\<exists>v. read_linux_cpu_affinity os = Inr v"
  by (auto simp: read_linux_cpu_affinity_def split: sum.splits text_file.splits)

lemma read_linux_cgroup_cpuset_total: "\<exists>v. read_linux_cgroup_cpuset os = Inr v"
  by (auto simp: read_linux_cgroup_cpuset_def split: sum.splits text_file.splits)

lemma main_run:
  assumes "1 \<le> j" "stop_time_of clock a \<le> clock j"
  shows "\<exists>r gtr k.
     gpu_post clock (snd (select_device si T)) (stop_time_of clock a) 1
        [Randn (snd (select_device si T)) (matrix a)] (r, gtr, k)
   \<and> main si T os clock wclock a =
       Some (Inr (main_header si T os
          @ replicate (nat (max 1 (cpu_threads a))) (Thread_start (Cpu_burn (stop_time_of clock a)) True)
          @ gtr @ (if r = Inr () then [] else [Print Gpu_loop_error])
          @ replicate (nat (max 1 (cpu_threads a))) (Thread_join (Some 1))
          @ [Print Done]))"
proof -
  obtain v1 where v1: "read_linux_cpu_affinity os = Inr v1"
    using read_linux_cpu_affinity_total by blast
  obtain v2 where v2: "read_linux_cgroup_cpuset os = Inr v2"
    using read_linux_cgroup_cpuset_total by blast
  obtain dl dev where sd: "select_device si T = (dl, dev)" by (cases "select_device si T")
  from gpu_loop_returns[where clock = clock and j = j and k = 1 and stop = "stop_time_of clock a"
      and T = T and d = dev and n = "matrix a", OF assms]
  obtain r gtr k where g: "gpu_loop T clock dev (matrix a) (stop_time_of clock a) 1 = Some (r, gtr, k)"
    and post: "gpu_post clock dev (stop_time_of clock a) 1 [Randn dev (matrix a)] (r, gtr, k)"
    by blast
  from post have r: "r = Inl RuntimeError \<or> r = Inr ()" by (simp add: gpu_post_def)
  have len: "length (worker_runs wclock clock a) = nat (max 1 (cpu_threads a))"
    by (simp add: worker_runs_def)
  have starts: "map (\<lambda>t. Thread_start (Cpu_burn (stop_time_of clock a)) True) (worker_runs wclock clock a)
      = replicate (nat (max 1 (cpu_threads a))) (Thread_start (Cpu_burn (stop_time_of clock a)) True)"
    by (simp add: map_replicate_const len)
  have "main si T os clock wclock a =
       Some (Inr (main_header si T os
          @ replicate (nat (max 1 (cpu_threads a))) (Thread_start (Cpu_burn (stop_time_of clock a)) True)
          @ gtr @ (if r = Inr () then [] else [Print Gpu_loop_error])
          @ replicate (nat (max 1 (cpu_threads a))) (Thread_join (Some 1))
          @ [Print Done]))"
    using r
    by (auto simp: main_def main_header_def Let_def v1 v2 sd g[unfolded One_nat_def]
          join_all_timeout len starts)
  with post sd show ?thesis by auto
qed

lemma started_replicate_start [simp]: "started (replicate n (Thread_start t d)) = replicate n t"
  by (induction n) simp_all

lemma started_replicate_join [simp]: "started (replicate n (Thread_join x)) = []"
  by (induction n) simp_all

lemma join_timeouts_replicate_start [simp]: "join_timeouts (replicate n (Thread_start t d)) = []"
  by (induction n) simp_all

lemma join_timeouts_replicate_join [simp]: "join_timeouts (replicate n (Thread_join x)) = replicate n x"
  by (induction n) simp_all

lemma printed_replicate_start [simp]: "printed (replicate n (Thread_start t d)) = []"
  by (induction n) simp_all

lemma printed_replicate_join [simp]: "printed (replicate n (Thread_join x)) = []"
  by (induction n) simp_all

lemma devices_used_replicate_start [simp]: "devices_used (replicate n (Thread_start t d)) = []"
  by (induction n) simp_all

lemma devices_used_replicate_join [simp]: "devices_used (replicate n (Thread_join x)) = []"
  by (induction n) simp_all

lemma matmuls_replicate_start [simp]: "matmuls (replicate n (Thread_start t d)) = 0"
  by (induction n) simp_all

lemma matmuls_replicate_join [simp]: "matmuls (replicate n (Thread_join x)) = 0"
  by (induction n) simp_all

lemma print_if_observe [simp]:
  "started (print_if f v) = []" "join_timeouts (print_if f v) = []"
  "devices_used (print_if f v) = []" "matmuls (print_if f v) = 0"
  by (cases v; simp)+

lemma main_header_observe [simp]:
  "started (main_header si T os) = []" "join_timeouts (main_header si T os) = []"
  "devices_used (main_header si T os) = []" "matmuls (main_header si T os) = 0"
  by (simp_all add: main_header_def select_device_def observe_append)

lemma printed_print_if_no_error: "Gpu_loop_error \<notin> set (printed (print_if Cpu_affinity v))"
  "Gpu_loop_error \<notin> set (printed (print_if Cgroup_cpuset v))"
  by (cases v; simp)+

lemma main_header_no_error: "Gpu_loop_error \<notin> set (printed (main_header si T os))"
  by (simp add: main_header_def select_device_def observe_append printed_print_if_no_error)

text \<open>What a returning run of main looks like to the observers.\<close>

lemma main_observed:
  assumes "1 \<le> j" "stop_time_of clock a \<le> clock j"
  shows "\<exists>tr r gtr k.
      main si T os clock wclock a = Some (Inr tr)
    \<and> gpu_post clock (snd (select_device si T)) (stop_time_of clock a) 1
        [Randn (snd (select_device si T)) (matrix a)] (r, gtr, k)
    \<and> started tr = replicate (nat (max 1 (cpu_threads a))) (Cpu_burn (stop_time_of clock a))
    \<and> join_timeouts tr = replicate (nat (max 1 (cpu_threads a))) (Some 1)
    \<and> devices_used tr = devices_used gtr
    \<and> matmuls tr = matmuls gtr
    \<and> set gtr \<subseteq> set tr
    \<and> set (printed (main_header si T os)) \<subseteq> set (printed tr)
    \<and> (Gpu_loop_error \<notin> set (printed tr) \<longrightarrow> r = Inr ())"
proof -
  from main_run[OF assms, of si T os wclock]
  obtain r gtr k where
    post: "gpu_post clock (snd (select_device si T)) (stop_time_of clock a) 1
        [Randn (snd (select_device si T)) (matrix a)] (r, gtr, k)"
    and m: "main si T os clock wclock a =
       Some (Inr (main_header si T os
          @ replicate (nat (max 1 (cpu_threads a))) (Thread_start (Cpu_burn (stop_time_of clock a)) True)
          @ gtr @ (if r = Inr () then [] else [Print Gpu_loop_error])
          @ replicate (nat (max 1 (cpu_threads a))) (Thread_join (Some 1))
          @ [Print Done]))"
    by blast
  from post have g: "started gtr = []" "join_timeouts gtr = []" "printed gtr = []"
    by (simp_all add: gpu_post_def)
  show ?thesis
    apply (rule exI[where x = "main_header si T os
          @ replicate (nat (max 1 (cpu_threads a))) (Thread_start (Cpu_burn (stop_time_of clock a)) True)
          @ gtr @ (if r = Inr () then [] else [Print Gpu_loop_error])
          @ replicate (nat (max 1 (cpu_threads a))) (Thread_join (Some 1))
          @ [Print Done]"])
    apply (rule exI[where x = r], rule exI[where x = gtr], rule exI[where x = k])
    using post m g
    by (auto simp: observe_append)
qed

section \<open>Lemmas: the workers of cpu\_partition\_stress.py\<close>

lemma cpu_burner_while_returns:
  "k \<le> j \<Longrightarrow> t0 + 20 \<le> clock j \<Longrightarrow>
   \<exists>k'. cpu_burner_while clock t0 k tr = Some (tr @ replicate (k' - k) (Sum_range 10000), k')
      \<and> k \<le> k' \<and> k' \<le> j \<and> 20 \<le> clock k' - t0
      \<and> (\<forall>i. k \<le> i \<and> i < k' \<longrightarrow> clock i - t0 < 20)"
proof (induction "j - k" arbitrary: k tr)
  case 0
  then have "\<not> clock k - t0 < 20" by simp
  with 0 show ?case by (subst cpu_burner_while.simps) auto
next
  case (Suc n)
  show ?case
  proof (cases "clock k - t0 < 20")
    case False
    with Suc.prems show ?thesis by (subst cpu_burner_while.simps) auto
  next
    case True
    with Suc.prems have "k \<noteq> j" by auto
    with Suc.prems have le: "Suc k \<le> j" by simp
    have n: "n = j - Suc k" using Suc.hyps(2) by simp
    from Suc.hyps(1)[OF n le Suc.prems(2), of "tr @ [Sum_range 10000]"]
    obtain k' where r: "cpu_burner_while clock t0 (Suc k) (tr @ [Sum_range 10000])
         = Some ((tr @ [Sum_range 10000]) @ replicate (k' - Suc k) (Sum_range 10000), k')"
      and b: "Suc k \<le> k'" "k' \<le> j" "20 \<le> clock k' - t0"
         "\<forall>i. Suc k \<le> i \<and> i < k' \<longrightarrow> clock i - t0 < 20" by blast
    have all: "\<forall>i. k \<le> i \<and> i < k' \<longrightarrow> clock i - t0 < 20"
    proof (intro allI impI)
      fix i assume "k \<le> i \<and> i < k'"
      then show "clock i - t0 < 20" using True b(4) by (cases "i = k") auto
    qed
    have rep: "(tr @ [Sum_range 10000]) @ replicate (k' - Suc k) (Sum_range 10000)
        = tr @ replicate (k' - k) (Sum_range 10000)"
      using b(1) by (simp add: Suc_diff_le replicate_append_same flip: replicate_Suc)
    show ?thesis
      apply (subst cpu_burner_while.simps)
      using True r b all rep by auto
  qed
qed


lemma join_all_None:
  "join_all None ws =
     (if None \<in> set ws then None else Some (replicate (length ws) (Thread_join None)))"
proof (induction ws)
  case Nil
  then show ?case by simp
next
  case (Cons w ws)
  then show ?case by (cases w) auto
qed

lemma cpu_burner_returns:
  assumes "1 \<le> j" "clock 0 + 20 \<le> clock j"
  shows "\<exists>k. cpu_burner S clock cpu =
           Some (Sched_setaffinity cpu (\<not> sched_setaffinity_raises S cpu)
                   # replicate (k - 1) (Sum_range 10000), k)
      \<and> 1 \<le> k \<and> k \<le> j \<and> 20 \<le> clock k - clock 0
      \<and> (\<forall>i. 1 \<le> i \<and> i < k \<longrightarrow> clock i - clock 0 < 20)"
proof -
  from cpu_burner_while_returns[where clock = clock and j = j and k = 1 and ?t0.0 = "clock 0"
      and tr = "[Sched_setaffinity cpu (\<not> sched_setaffinity_raises S cpu)]", OF assms]
  show ?thesis by (auto simp: cpu_burner_def)
qed



lemmas run_defs = main_def select_device_def read_linux_cpu_affinity_def
  read_linux_cgroup_cpuset_def stop_time_of_def worker_runs_def gpu_loop_def cpu_burn_def
  sysinfo0_def torch_no_cuda_def os_no_proc_def

section \<open>stress\_long.py: the number of CPU workers\<close>

text \<open>
  Claim C10. For every integer \<open>n\<close> given as the CPU worker count, \<open>main\<close> starts exactly
  \<open>max(1, n)\<close> worker threads; for \<open>n \<le> 0\<close> it starts one worker, not none, and it does
  not fail. The hypothesis says that the clock of the main thread reaches the stop time,
  so that \<open>main\<close> returns.
\<close>

theorem main_starts_max_1_cpu_threads:
  assumes "1 \<le> j" "stop_time_of clock a \<le> clock j"
  shows "\<exists>tr. main si T os clock wclock a = Some (Inr tr)
     \<and> int (length (started tr)) = max 1 (cpu_threads a)
     \<and> (cpu_threads a \<le> 0 \<longrightarrow> length (started tr) = 1)"
proof -
  from main_observed[OF assms, of si T os wclock]
  obtain tr where "main si T os clock wclock a = Some (Inr tr)"
    and "started tr = replicate (nat (max 1 (cpu_threads a))) (Cpu_burn (stop_time_of clock a))"
    by blast
  then show ?thesis by auto
qed

theorem main_starts_max_1_cpu_threads_witness:
  "(1::nat) \<le> 2
   \<and> stop_time_of (\<lambda>k. 3 * real k) \<lparr>seconds = 5, cpu_threads = - 3, matrix = 2\<rparr> \<le> 3 * real (2::nat)
   \<and> (\<exists>tr. main sysinfo0 torch_no_cuda os_no_proc (\<lambda>k. 3 * real k) (\<lambda>i k. 3 * real k)
             \<lparr>seconds = 5, cpu_threads = - 3, matrix = 2\<rparr> = Some (Inr tr)
        \<and> int (length (started tr)) = max 1 (- 3) \<and> length (started tr) = 1)"
proof -
  have h1: "(1::nat) \<le> 2" by simp
  have h2: "stop_time_of (\<lambda>k. 3 * real k) \<lparr>seconds = 5, cpu_threads = - 3, matrix = 2\<rparr>
      \<le> (\<lambda>k. 3 * real k) (2::nat)"
    by (simp add: stop_time_of_def)
  from main_starts_max_1_cpu_threads[of 2 "\<lambda>k. 3 * real k"
      "\<lparr>seconds = 5, cpu_threads = - 3, matrix = 2\<rparr>", OF h1 h2,
      of sysinfo0 torch_no_cuda os_no_proc "\<lambda>i k. 3 * real k"] h1 h2
  show ?thesis by simp
qed

section \<open>Lemmas: the loops of stress\_long.py\<close>





section \<open>stress\_long.py without CUDA\<close>




section \<open>stress\_long.py: the deadline\<close>

text \<open>
  Claim C5, as stated: the deadline is \<open>now + d\<close> for the configured duration \<open>d\<close>. It
  fails for \<open>--seconds 1\<close> at the time 100: the stop time is 105, not 101, and both
  workers are started with 105.
\<close>

theorem deadline_is_not_now_plus_seconds:
  "stop_time_of (\<lambda>k. 100 + 3 * real k) \<lparr>seconds = 1, cpu_threads = 2, matrix = 2\<rparr> = 105
   \<and> (100 + 3 * real 0) + real_of_int (seconds \<lparr>seconds = 1, cpu_threads = 2, matrix = 2\<rparr>) = 101
   \<and> main sysinfo0 torch_no_cuda os_no_proc (\<lambda>k. 100 + 3 * real k) (\<lambda>i k. 100 + 3 * real k)
        \<lparr>seconds = 1, cpu_threads = 2, matrix = 2\<rparr>
      = Some (Inr [Print Stress_setup, Print (Platform ''Linux''), Print (Python_version ''3.10.12''),
          Print (Cuda_visible_devices ''<unset>''),
          Print Cuda_available_false_will_run_gpu_loop_on_cpu, Print Setup_end,
          Thread_start (Cpu_burn 105) True, Thread_start (Cpu_burn 105) True,
          Randn Cpu 2, Matmul Cpu, Sleep 0.005,
          Thread_join (Some 1), Thread_join (Some 1), Print Done])"
  by (simp add: run_defs gpu_while.simps cpu_burn_while.simps upt_rec)

text \<open>
  Claim C5, amended: \<open>main\<close> of \<open>stress_long.py\<close> computes the stop time once, from its
  first clock reading, as \<open>now + max(5, d)\<close>; every CPU worker is started with that value
  and runs \<open>cpu_burn\<close> against it, and the GPU loop polls the same value: when it ends
  without an error, each reading before a product was below it and the reading that ended
  the loop had reached it. The hypothesis: the clock of the main thread reaches the stop
  time.
\<close>

theorem single_deadline_now_plus_max_5:
  assumes "1 \<le> j" "stop_time_of clock a \<le> clock j"
  shows "\<exists>tr. main si T os clock wclock a = Some (Inr tr)
     \<and> length (started tr) = nat (max 1 (cpu_threads a))
     \<and> (\<forall>t \<in> set (started tr). t = Cpu_burn (clock 0 + of_int (max 5 (seconds a))))
     \<and> (\<forall>i < nat (max 1 (cpu_threads a)).
           worker_runs wclock clock a ! i
             = cpu_burn (wclock i) (clock 0 + of_int (max 5 (seconds a))))
     \<and> (Gpu_loop_error \<notin> set (printed tr) \<longrightarrow>
           (\<forall>i. 1 \<le> i \<and> i \<le> matmuls tr \<longrightarrow> clock i < clock 0 + of_int (max 5 (seconds a)))
         \<and> clock 0 + of_int (max 5 (seconds a)) \<le> clock (Suc (matmuls tr)))"
proof -
  from main_observed[OF assms, of si T os wclock]
  obtain tr r gtr k where m: "main si T os clock wclock a = Some (Inr tr)"
    and post: "gpu_post clock (snd (select_device si T)) (stop_time_of clock a) 1
        [Randn (snd (select_device si T)) (matrix a)] (r, gtr, k)"
    and st: "started tr = replicate (nat (max 1 (cpu_threads a))) (Cpu_burn (stop_time_of clock a))"
    and mm: "matmuls tr = matmuls gtr"
    and err: "Gpu_loop_error \<notin> set (printed tr) \<longrightarrow> r = Inr ()"
    by auto
  have stop: "stop_time_of clock a = clock 0 + of_int (max 5 (seconds a))"
    by (simp add: stop_time_of_def)
  have w: "\<forall>i < nat (max 1 (cpu_threads a)).
           worker_runs wclock clock a ! i = cpu_burn (wclock i) (stop_time_of clock a)"
    by (simp add: worker_runs_def)
  have g: "Gpu_loop_error \<notin> set (printed tr) \<longrightarrow>
           (\<forall>i. 1 \<le> i \<and> i \<le> matmuls tr \<longrightarrow> clock i < stop_time_of clock a)
         \<and> stop_time_of clock a \<le> clock (Suc (matmuls tr))"
  proof
    assume "Gpu_loop_error \<notin> set (printed tr)"
    with err have r: "r = Inr ()" by simp
    from post r have k: "1 \<le> k" "stop_time_of clock a \<le> clock k" "matmuls gtr = k - 1"
      and lt: "\<forall>i. 1 \<le> i \<and> i < k \<longrightarrow> clock i < stop_time_of clock a"
      by (simp_all add: gpu_post_def)
    from k have "k = Suc (matmuls tr)" using mm by simp
    with k lt show "(\<forall>i. 1 \<le> i \<and> i \<le> matmuls tr \<longrightarrow> clock i < stop_time_of clock a)
         \<and> stop_time_of clock a \<le> clock (Suc (matmuls tr))" by auto
  qed
  from m st w g show ?thesis unfolding stop by auto
qed

theorem single_deadline_now_plus_max_5_witness:
  "(1::nat) \<le> 2
   \<and> stop_time_of (\<lambda>k. 100 + 3 * real k) \<lparr>seconds = 7, cpu_threads = 2, matrix = 2\<rparr> \<le> 100 + 3 * real (3::nat)
   \<and> (\<exists>tr. main sysinfo0 torch_no_cuda os_no_proc (\<lambda>k. 100 + 3 * real k) (\<lambda>i k. 100 + 3 * real k)
               \<lparr>seconds = 7, cpu_threads = 2, matrix = 2\<rparr> = Some (Inr tr)
        \<and> length (started tr) = 2
        \<and> (\<forall>t \<in> set (started tr). t = Cpu_burn 107))"
proof -
  have h1: "(1::nat) \<le> 3" by simp
  have h2: "stop_time_of (\<lambda>k. 100 + 3 * real k) \<lparr>seconds = 7, cpu_threads = 2, matrix = 2\<rparr>
      \<le> (\<lambda>k. 100 + 3 * real k) (3::nat)"
    by (simp add: stop_time_of_def)
  from single_deadline_now_plus_max_5[of 3 "\<lambda>k. 100 + 3 * real k"
      "\<lparr>seconds = 7, cpu_threads = 2, matrix = 2\<rparr>", OF h1 h2,
      of sysinfo0 torch_no_cuda os_no_proc "\<lambda>i k. 100 + 3 * real k"] h2
  show ?thesis by auto
qed

section \<open>Lemmas: the script cpu\_partition\_stress.py\<close>

lemma start_workers_observe [simp]:
  "started (start_workers aff) = map Cpu_burner aff"
  "join_timeouts (start_workers aff) = []"
  "printed (start_workers aff) = []"
  by (induction aff) (simp_all add: start_workers_def)

lemma cps_returned:
  assumes "cpu_partition_stress hostname pid S wclock = Some (Inr tr)"
  shows "\<exists>aff. affinity S = Inr aff
     \<and> tr = [Print (Host_pid hostname pid), Print (Allowed_cpus aff),
              Print (Launching_workers (length aff))]
            @ start_workers aff @ replicate (length aff) (Thread_join None)
            @ [Print Done_all_allowed_cpus_loaded, Print Check_with_mpstat]"
  using assms
  by (auto simp: cpu_partition_stress_def join_all_None split: sum.splits option.splits if_splits)

lemma printed_replicate_sum_range [simp]: "printed (replicate n (Sum_range m)) = []"
  by (induction n) simp_all

lemma cps_printed:
  assumes "cpu_partition_stress hostname pid S wclock = Some (Inr tr)"
  shows "\<exists>aff. affinity S = Inr aff
     \<and> printed tr = [Host_pid hostname pid, Allowed_cpus aff, Launching_workers (length aff),
          Done_all_allowed_cpus_loaded, Check_with_mpstat]
     \<and> started tr = map Cpu_burner aff"
  using cps_returned[OF assms] by (auto simp: observe_append)

section \<open>Joining the workers\<close>




section \<open>The number of workers\<close>





section \<open>cpu\_partition\_stress.py: the fallback of the affinity\<close>

text \<open>
  Claim C3, as stated: when \<open>sched_getaffinity\<close> is unavailable the report notes that the
  CPU set is an approximation. It fails: on a machine without \<open>sched_getaffinity\<close> and
  with two CPUs counted, the script prints the same lines, and does the same, as on a
  machine whose affinity is read as \<open>{0, 1}\<close>; no line tells the two apart.
\<close>

theorem fallback_report_has_no_note:
  "cpu_partition_stress ''node'' 1 sched_fallback (\<lambda>cpu k. 30 * real k)
     = Some (Inr [Print (Host_pid ''node'' 1), Print (Allowed_cpus [0, 1]),
          Print (Launching_workers 2),
          Thread_start (Cpu_burner 0) True, Thread_start (Cpu_burner 1) True,
          Thread_join None, Thread_join None,
          Print Done_all_allowed_cpus_loaded, Print Check_with_mpstat])
   \<and> cpu_partition_stress ''node'' 1 sched_direct (\<lambda>cpu k. 30 * real k)
     = cpu_partition_stress ''node'' 1 sched_fallback (\<lambda>cpu k. 30 * real k)"
proof -
  have a: "affinity sched_fallback = Inr [0, 1]"
    by (simp add: affinity_def sched_fallback_def upt_rec)
  have b: "affinity sched_direct = Inr [0, 1]"
    by (simp add: affinity_def sched_direct_def sorted_list_of_fset.rep_eq)
  have w: "cpu_burner sched_fallback (\<lambda>k. 30 * real k) c = Some ([Sched_setaffinity c True], 1)"
    "cpu_burner sched_direct (\<lambda>k. 30 * real k) c = Some ([Sched_setaffinity c True], 1)" for c
    by (simp_all add: cpu_burner_def cpu_burner_while.simps sched_fallback_def sched_direct_def)
  show ?thesis
    by (simp add: cpu_partition_stress_def a b w start_workers_def)
qed

text \<open>
  Claim C3, amended: whenever \<open>sched_getaffinity\<close> is unavailable or raises, and
  \<open>os.cpu_count()\<close> gives a count \<open>c > 0\<close>, the affinity is the non-empty full range
  \<open>0..c-1\<close> and no exception is raised; the report prints that range as the allowed CPUs,
  with no note that it is an approximation.
\<close>

theorem affinity_falls_back_to_cpu_count:
  assumes "sched_getaffinity S = Inl e" "cpu_count S = Some c" "0 < c"
  shows "affinity S = Inr [0..<c] \<and> [0..<c] \<noteq> [] \<and> length [0..<c] = c
     \<and> (\<forall>tr. cpu_partition_stress hostname pid S wclock = Some (Inr tr) \<longrightarrow>
           printed tr = [Host_pid hostname pid, Allowed_cpus [0..<c], Launching_workers c,
                         Done_all_allowed_cpus_loaded, Check_with_mpstat])"
proof -
  from assms have a: "affinity S = Inr [0..<c]" by (simp add: affinity_def)
  have "\<forall>tr. cpu_partition_stress hostname pid S wclock = Some (Inr tr) \<longrightarrow>
           printed tr = [Host_pid hostname pid, Allowed_cpus [0..<c], Launching_workers c,
                         Done_all_allowed_cpus_loaded, Check_with_mpstat]"
  proof (intro allI impI)
    fix tr assume "cpu_partition_stress hostname pid S wclock = Some (Inr tr)"
    from cps_printed[OF this] a
    show "printed tr = [Host_pid hostname pid, Allowed_cpus [0..<c], Launching_workers c,
                         Done_all_allowed_cpus_loaded, Check_with_mpstat]" by auto
  qed
  with a assms(3) show ?thesis by simp
qed

theorem affinity_falls_back_to_cpu_count_witness:
  "sched_getaffinity sched_fallback = Inl AttributeError \<and> cpu_count sched_fallback = Some 2
   \<and> (0::nat) < 2 \<and> affinity sched_fallback = Inr [0, 1]"
proof -
  have h: "sched_getaffinity sched_fallback = Inl AttributeError" "cpu_count sched_fallback = Some 2"
    "(0::nat) < 2" by (simp_all add: sched_fallback_def)
  from affinity_falls_back_to_cpu_count[OF h, of "''node''" 1 "\<lambda>cpu k. 30 * real k"] h
  show ?thesis by (simp add: upt_rec)
qed

section \<open>cpu\_partition\_stress.py: a worker that cannot be pinned\<close>

text \<open>
  Claim C8, as stated: a pinning failure is logged as a degraded condition. It fails: on a
  machine where \<open>sched_setaffinity\<close> raises, the worker does nothing but the failed call
  and its sums, and the script prints its usual five lines.
\<close>

theorem pinning_failure_is_not_logged:
  "cpu_burner sched_pin_fails (\<lambda>k. 15 * real k) 0
     = Some ([Sched_setaffinity 0 False, Sum_range 10000], 2)
   \<and> cpu_partition_stress ''node'' 1 sched_pin_fails (\<lambda>cpu k. 15 * real k)
     = Some (Inr [Print (Host_pid ''node'' 1), Print (Allowed_cpus [0]),
          Print (Launching_workers 1), Thread_start (Cpu_burner 0) True, Thread_join None,
          Print Done_all_allowed_cpus_loaded, Print Check_with_mpstat])"
proof -
  have a: "affinity sched_pin_fails = Inr [0]"
    by (simp add: affinity_def sched_pin_fails_def sorted_list_of_fset.rep_eq)
  have w: "cpu_burner sched_pin_fails (\<lambda>k. 15 * real k) 0
     = Some ([Sched_setaffinity 0 False, Sum_range 10000], 2)"
    by (simp add: cpu_burner_def cpu_burner_while.simps sched_pin_fails_def)
  show ?thesis by (simp add: w cpu_partition_stress_def a start_workers_def)
qed

text \<open>
  Claim C8, amended: when pinning a worker to its CPU fails, the exception is passed over
  in silence (nothing is printed by the worker) and the run is not aborted: the worker
  executes its busy loop, unpinned, until its clock is 20 seconds past its own first
  reading. The hypotheses: the pinning raises, and the worker's clock reaches that bound.
\<close>

theorem unpinned_worker_runs_its_loop:
  assumes "sched_setaffinity_raises S cpu" "1 \<le> j" "clock 0 + 20 \<le> clock j"
  shows "\<exists>k. cpu_burner S clock cpu
              = Some (Sched_setaffinity cpu False # replicate (k - 1) (Sum_range 10000), k)
     \<and> printed (Sched_setaffinity cpu False # replicate (k - 1) (Sum_range 10000)) = []
     \<and> 1 \<le> k \<and> 20 \<le> clock k - clock 0
     \<and> (\<forall>i. 1 \<le> i \<and> i < k \<longrightarrow> clock i - clock 0 < 20)"
proof -
  from cpu_burner_returns[where clock = clock and j = j and S = S and cpu = cpu, OF assms(2,3)]
    assms(1)
  show ?thesis by auto
qed

theorem unpinned_worker_runs_its_loop_witness:
  "sched_setaffinity_raises sched_pin_fails 0 \<and> (1::nat) \<le> 2
   \<and> 15 * real (0::nat) + 20 \<le> 15 * real (2::nat)
   \<and> (\<exists>k. cpu_burner sched_pin_fails (\<lambda>k. 15 * real k) 0
              = Some (Sched_setaffinity 0 False # replicate (k - 1) (Sum_range 10000), k)
        \<and> 20 \<le> 15 * real k - 15 * real (0::nat))"
proof -
  have h: "sched_setaffinity_raises sched_pin_fails 0" "(1::nat) \<le> 2"
    "(\<lambda>k. 15 * real k) 0 + 20 \<le> (\<lambda>k. 15 * real k) (2::nat)"
    by (simp_all add: sched_pin_fails_def)
  from unpinned_worker_runs_its_loop[of sched_pin_fails 0 2 "\<lambda>k. 15 * real k", OF h] h
  show ?thesis by auto
qed

section \<open>The ring exchange\<close>

lemma sint_word_of_int_32:
  assumes "- (2 ^ 31) \<le> v" "v < 2 ^ 31"
  shows "sint (word_of_int v :: 32 word) = v"
  using assms by (simp add: sint_sbintrunc' signed_take_bit_int_eq_self)

lemma np_full_int32_rank:
  assumes "0 \<le> r" "r < sz" "sz \<le> 2 ^ 31"
  shows "np_full_int32 n r = Inr (replicate n (word_of_int r))"
  using assms by (simp add: np_full_int32_def)

lemma concat_map_singleton:
  "(\<forall>x \<in> set xs. g x = [f x]) \<Longrightarrow> concat (map g xs) = map f xs"
  by (induction xs) simp_all

lemma find_map_unique:
  assumes "x \<in> set xs" "P (f x)" "\<forall>y \<in> set xs. P (f y) \<longrightarrow> y = x"
  shows "find P (map f xs) = Some (f x)"
  using assms
proof (induction xs)
  case Nil
  then show ?case by simp
next
  case (Cons a xs)
  show ?case
  proof (cases "P (f a)")
    case True
    with Cons.prems(3) have "a = x" by simp
    with True show ?thesis by simp
  next
    case False
    with Cons.prems(1,2) have "x \<in> set xs" by auto
    moreover from Cons.prems(3) have "\<forall>y \<in> set xs. P (f y) \<longrightarrow> y = x" by simp
    ultimately have "find P (map f xs) = Some (f x)" using Cons.IH Cons.prems(2) by blast
    with False show ?thesis by simp
  qed
qed

lemma posted_sends_all:
  assumes "sz \<le> 2 ^ 31"
  shows "posted_sends sz =
     map (\<lambda>r. \<lparr>sender = r, dest = ring_dst r sz, tag = 100,
                payload = replicate 8 (word_of_int r)\<rparr>) [0..sz - 1]"
  unfolding posted_sends_def
proof (rule concat_map_singleton, rule ballI)
  fix r assume "r \<in> set [0..sz - 1]"
  then have "0 \<le> r" "r < sz" by auto
  from np_full_int32_rank[OF this assms, of 8]
  show "isend r sz = [\<lparr>sender = r, dest = ring_dst r sz, tag = 100,
                payload = replicate 8 (word_of_int r)\<rparr>]"
    by (simp add: isend_def)
qed

lemma ring_dst_src:
  assumes "2 \<le> sz" "0 \<le> rank" "rank < sz"
  shows "ring_dst (ring_src rank sz) sz = rank"
proof -
  have "((rank - 1) mod sz + 1) mod sz = (rank - 1 + 1) mod sz"
    by (simp add: mod_add_left_eq)
  with assms show ?thesis by (simp add: ring_dst_def ring_src_def)
qed

text \<open>
  Claim C2. For every number of participants \<open>sz \<ge> 2\<close>, after the ring exchange the
  participant of rank \<open>r\<close> (with \<open>0 \<le> r < sz\<close>) has completed its receive, its buffer holds
  in each of its 8 elements the rank \<open>(r - 1) mod sz\<close> of its left neighbour, and the flag
  \<open>ok\<close> it computes is true. The number of participants is an MPI \<open>int\<close>, hence at most
  \<open>2^31\<close>, so that every rank fits the \<open>int32\<close> buffers.
\<close>

theorem ring_exchange_receives_left_neighbour:
  assumes "2 \<le> sz" "sz \<le> 2 ^ 31" "0 \<le> rank" "rank < sz"
  shows "ring_main sz rank =
           Some (Inr (Exchanged (replicate 8 (word_of_int ((rank - 1) mod sz))) True))
       \<and> (\<forall>w \<in> set (replicate 8 (word_of_int ((rank - 1) mod sz) :: 32 word)).
             sint w = (rank - 1) mod sz)"
proof -
  let ?src = "(rank - 1) mod sz"
  let ?f = "\<lambda>r. \<lparr>sender = r, dest = ring_dst r sz, tag = 100,
                payload = replicate 8 (word_of_int r :: 32 word)\<rparr>"
  from assms have s: "0 \<le> ?src" "?src < sz" by simp_all
  then have mem: "?src \<in> set [0..sz - 1]" by simp
  have d: "ring_dst ?src sz = rank"
    using ring_dst_src[OF assms(1,3,4)] by (simp add: ring_src_def)
  have "find (\<lambda>m. dest m = rank \<and> sender m = ?src \<and> tag m = 100) (map ?f [0..sz - 1])
          = Some (?f ?src)"
  proof (rule find_map_unique[OF mem])
    show "dest (?f ?src) = rank \<and> sender (?f ?src) = ?src \<and> tag (?f ?src) = 100"
      by (simp add: d)
    show "\<forall>y \<in> set [0..sz - 1].
        dest (?f y) = rank \<and> sender (?f y) = ?src \<and> tag (?f y) = 100 \<longrightarrow> y = ?src"
      by simp
  qed
  then have recv: "irecv_wait (posted_sends sz) rank ?src 100
      = Some (replicate 8 (word_of_int ?src))"
    by (simp add: irecv_wait_def posted_sends_all[OF assms(2)])
  from s assms(2) have si: "sint (word_of_int ?src :: 32 word) = ?src"
    by (intro sint_word_of_int_32) auto
  then have ok: "np_all_eq (replicate 8 (word_of_int ?src)) ?src"
    by (simp add: np_all_eq_def list_all_iff)
  from assms have full: "np_full_int32 8 rank = Inr (replicate 8 (word_of_int rank))"
    by (intro np_full_int32_rank) auto
  from assms(1) recv ok full si show ?thesis
    by (simp add: ring_main_def ring_src_def)
qed

theorem ring_exchange_receives_left_neighbour_witness:
  "(2::int) \<le> 3 \<and> (3::int) \<le> 2 ^ 31 \<and> (0::int) \<le> 0 \<and> (0::int) < 3
   \<and> ring_main 3 0 = Some (Inr (Exchanged (replicate 8 2) True))
   \<and> sint (2 :: 32 word) = 2"
proof -
  have h: "(2::int) \<le> 3" "(3::int) \<le> 2 ^ 31" "(0::int) \<le> 0" "(0::int) < 3" by simp_all
  have m: "((0::int) - 1) mod 3 = 2" by simp
  have w: "(word_of_int 2 :: 32 word) = 2" by simp
  from ring_exchange_receives_left_neighbour[OF h] have "ring_main 3 0
      = Some (Inr (Exchanged (replicate 8 (word_of_int ((0 - 1) mod 3))) True))" by (rule conjunct1)
  then have "ring_main 3 0 = Some (Inr (Exchanged (replicate 8 2) True))"
    unfolding m w .
  moreover have "sint (2 :: 32 word) = 2" by simp
  ultimately show ?thesis by (intro conjI h)
qed

section \<open>The probing functions never fail\<close>

lemma scan_status_no_match:
  "\<forall>l \<in> set ls. \<not> py_startswith l ''Cpus_allowed_list:'' \<Longrightarrow>
     scan_status ls err = (case err of None \<Rightarrow> Inr None | Some e \<Rightarrow> Inl e)"
  by (induction ls) (simp_all split: option.splits)

lemma file_read_Inr: "file_read cf = Inr s \<Longrightarrow> \<exists>ls. cf = File ls None \<and> s = concat ls"
  by (cases cf rule: file_read.cases) simp_all

lemma scan_cgroup_Some:
  "scan_cgroup os ls err = Inr (Some s) \<Longrightarrow>
     \<exists>p ls'. path_exists os p \<and> open_r os p = Inr (File ls' None) \<and> s = py_strip (concat ls')"
proof (induction os ls err rule: scan_cgroup.induct)
  case (1 os)
  then show ?case by simp
next
  case (2 os e)
  then show ?case by simp
next
  case (3 os line rest err)
  let ?parts = "py_split CHR '':'' (py_strip line)"
  let ?p = "os_path_join ''/sys/fs/cgroup'' [py_lstrip_chars ''/'' (?parts ! 2), ''cpuset.cpus'']"
  show ?case
  proof (cases "length ?parts = 3 \<and> ?parts ! 0 = ''0'' \<and> path_exists os ?p")
    case True
    with "3.prems" have "\<exists>cf s'. open_r os ?p = Inr cf \<and> file_read cf = Inr s' \<and> s = py_strip s'"
      by (auto simp: Let_def split: sum.splits)
    then obtain cf s' where o: "open_r os ?p = Inr cf" "file_read cf = Inr s'" "s = py_strip s'"
      by blast
    from file_read_Inr[OF o(2)] obtain ls' where "cf = File ls' None" "s' = concat ls'" by blast
    with o True show ?thesis by blast
  next
    case False
    with 3 show ?thesis by (auto simp: Let_def split: if_splits)
  qed
qed


lemma print_if_None_no_line:
  "f s \<notin> set (printed (print_if f None))"
  by simp

lemmas string_defs = py_strip_def py_isspace_def py_startswith_def py_endswith_def py_split1_def
  py_index_def py_lstrip_chars_def os_path_join_def

text \<open>
  Claim C7, as stated: every read of cgroup or NUMA information gives an absent value on
  an I/O error, and the field is missing from the report. It fails in two other scripts
  of the repository. On a system where no file can be opened, \<open>get_cgroup\<close> of
  \<open>mpi_mig_test.py\<close> returns the string \<open>error\<close>, which the report prints as the cgroup
  of the rank, and the NUMA part of \<open>simple_test.py\<close> prints a line that it could not
  check, with the error.
\<close>

theorem error_placeholder_is_reported:
  "get_cgroup os_no_proc 7 = Inr ''error''
   \<and> report_cgroup os_no_proc 7 0 = Inr (Rank_cgroup 0 ''error'')
   \<and> numa_memory os_no_proc 7 = [Numa_memory_nodes, Could_not_check OSError, Blank_line]"
  by (simp add: get_cgroup_def report_cgroup_def numa_memory_def os_no_proc_def)

text \<open>
  Claim C7, amended: the reads of cgroup, CPU list and NUMA information modelled here
  (of \<open>stress_long.py\<close>, \<open>ml_benchmark.py\<close>, \<open>mpi_mig_test.py\<close> and the NUMA part of
  \<open>simple_test.py\<close>) never raise to their caller. In \<open>stress_long.py\<close> and \<open>ml_benchmark.py\<close> (\<open>read_linux_cgroup_cpuset\<close>,
  \<open>read_linux_cpu_affinity\<close>) a missing path, an \<open>open\<close> that raises, or a read that fails
  before the wanted line, gives \<open>None\<close>; a cpuset string is returned only when the cpuset
  file was read to its end without error; and for \<open>None\<close> the report of \<open>main\<close> has no line
  for the field. In \<open>mpi_mig_test.py\<close>, \<open>get_cgroup\<close> always returns a string, and on an
  \<open>open\<close> or a read that raises it is the string \<open>error\<close>, which the report prints. In
  \<open>simple_test.py\<close> the NUMA part, on an \<open>open\<close> that raises, prints its heading, one line
  for the error and an empty line.
\<close>

theorem probes_are_best_effort:
  "(\<exists>v. read_linux_cpu_affinity os = Inr v) \<and> (\<exists>v. read_linux_cgroup_cpuset os = Inr v)
   \<and> ((\<not> path_exists os ''/proc/self/status'' \<or> (\<exists>e. open_r os ''/proc/self/status'' = Inl e))
        \<longrightarrow> read_linux_cpu_affinity os = Inr None)
   \<and> ((\<not> path_exists os ''/proc/self/cgroup'' \<or> (\<exists>e. open_r os ''/proc/self/cgroup'' = Inl e))
        \<longrightarrow> read_linux_cgroup_cpuset os = Inr None)
   \<and> (\<forall>ls e. open_r os ''/proc/self/status'' = Inr (File ls (Some e))
          \<and> (\<forall>l \<in> set ls. \<not> py_startswith l ''Cpus_allowed_list:'')
        \<longrightarrow> read_linux_cpu_affinity os = Inr None)
   \<and> (\<forall>s. read_linux_cgroup_cpuset os = Inr (Some s)
        \<longrightarrow> (\<exists>p ls. path_exists os p \<and> open_r os p = Inr (File ls None)
                 \<and> s = py_strip (concat ls)))
   \<and> (read_linux_cpu_affinity os = Inr None
        \<longrightarrow> (\<forall>s. Cpu_affinity s \<notin> set (printed (main_header si T os))))
   \<and> (read_linux_cgroup_cpuset os = Inr None
        \<longrightarrow> (\<forall>s. Cgroup_cpuset s \<notin> set (printed (main_header si T os))))
   \<and> (\<exists>c. get_cgroup os pid = Inr c)
   \<and> (\<forall>e. open_r os (''/proc/'' @ str_int pid @ ''/cgroup'') = Inl e
        \<longrightarrow> get_cgroup os pid = Inr ''error''
          \<and> report_cgroup os pid rank = Inr (Rank_cgroup rank ''error''))
   \<and> (\<forall>ls e. open_r os (''/proc/'' @ str_int pid @ ''/cgroup'') = Inr (File ls (Some e))
        \<longrightarrow> get_cgroup os pid = Inr ''error''
          \<and> report_cgroup os pid rank = Inr (Rank_cgroup rank ''error''))
   \<and> (\<forall>e. open_r os (''/proc/'' @ str_int pid @ ''/status'') = Inl e
        \<longrightarrow> numa_memory os pid
            = [Numa_memory_nodes,
               if e = MemoryError then Memory_error_reading_status_file else Could_not_check e,
               Blank_line])"
proof (intro conjI impI allI)
  show "\<exists>v. read_linux_cpu_affinity os = Inr v" by (rule read_linux_cpu_affinity_total)
  show "\<exists>v. read_linux_cgroup_cpuset os = Inr v" by (rule read_linux_cgroup_cpuset_total)
next
  assume "\<not> path_exists os ''/proc/self/status'' \<or> (\<exists>e. open_r os ''/proc/self/status'' = Inl e)"
  then show "read_linux_cpu_affinity os = Inr None"
    by (auto simp: read_linux_cpu_affinity_def)
next
  assume "\<not> path_exists os ''/proc/self/cgroup'' \<or> (\<exists>e. open_r os ''/proc/self/cgroup'' = Inl e)"
  then show "read_linux_cgroup_cpuset os = Inr None"
    by (auto simp: read_linux_cgroup_cpuset_def)
next
  fix ls e
  assume a: "open_r os ''/proc/self/status'' = Inr (File ls (Some e))
          \<and> (\<forall>l \<in> set ls. \<not> py_startswith l ''Cpus_allowed_list:'')"
  then have "scan_status ls (Some e) = Inl e" by (simp add: scan_status_no_match)
  with a show "read_linux_cpu_affinity os = Inr None"
    by (simp add: read_linux_cpu_affinity_def)
next
  fix s assume a: "read_linux_cgroup_cpuset os = Inr (Some s)"
  then obtain ls err where "open_r os ''/proc/self/cgroup'' = Inr (File ls err)"
    "scan_cgroup os ls err = Inr (Some s)"
    by (auto simp: read_linux_cgroup_cpuset_def split: if_splits sum.splits text_file.splits)
  from scan_cgroup_Some[OF this(2)]
  show "\<exists>p ls. path_exists os p \<and> open_r os p = Inr (File ls None) \<and> s = py_strip (concat ls)" .
next
  fix s assume "read_linux_cpu_affinity os = Inr None"
  then show "Cpu_affinity s \<notin> set (printed (main_header si T os))"
    by (cases "projr (read_linux_cgroup_cpuset os)")
       (auto simp: main_header_def select_device_def observe_append)
next
  fix s assume "read_linux_cgroup_cpuset os = Inr None"
  then show "Cgroup_cpuset s \<notin> set (printed (main_header si T os))"
    by (cases "projr (read_linux_cpu_affinity os)")
       (auto simp: main_header_def select_device_def observe_append)
next
  show "\<exists>c. get_cgroup os pid = Inr c"
    by (auto simp: get_cgroup_def split: sum.splits option.splits)
next
  fix e assume a: "open_r os (''/proc/'' @ str_int pid @ ''/cgroup'') = Inl e"
  then show "get_cgroup os pid = Inr ''error''" by (simp add: get_cgroup_def)
  with a show "report_cgroup os pid rank = Inr (Rank_cgroup rank ''error'')"
    by (simp add: report_cgroup_def)
next
  fix ls e assume a: "open_r os (''/proc/'' @ str_int pid @ ''/cgroup'') = Inr (File ls (Some e))"
  then show g: "get_cgroup os pid = Inr ''error''" by (simp add: get_cgroup_def)
  then show "report_cgroup os pid rank = Inr (Rank_cgroup rank ''error'')"
    by (simp add: report_cgroup_def)
next
  fix e assume "open_r os (''/proc/'' @ str_int pid @ ''/status'') = Inl e"
  then show "numa_memory os pid
            = [Numa_memory_nodes,
               if e = MemoryError then Memory_error_reading_status_file else Could_not_check e,
               Blank_line]"
    by (simp add: numa_memory_def)
qed

theorem probes_are_best_effort_witness:
  "\<not> path_exists os_no_proc ''/proc/self/status''
   \<and> read_linux_cpu_affinity os_no_proc = Inr None
   \<and> \<not> path_exists os_no_proc ''/proc/self/cgroup''
   \<and> read_linux_cgroup_cpuset os_no_proc = Inr None
   \<and> open_r os_io_error ''/proc/self/status'' = Inr (File [''Name: python3\<newline>''] (Some OSError))
   \<and> \<not> py_startswith ''Name: python3\<newline>'' ''Cpus_allowed_list:''
   \<and> read_linux_cpu_affinity os_io_error = Inr None
   \<and> read_linux_cpu_affinity os_mig = Inr (Some ''0-3'')
   \<and> read_linux_cgroup_cpuset os_mig = Inr (Some ''0-3'')
   \<and> (\<exists>p ls. path_exists os_mig p \<and> open_r os_mig p = Inr (File ls None)
          \<and> ''0-3'' = py_strip (concat ls))
   \<and> open_r os_no_proc (''/proc/'' @ str_int 7 @ ''/cgroup'') = Inl OSError
   \<and> get_cgroup os_no_proc 7 = Inr ''error''
   \<and> open_r os_no_proc (''/proc/'' @ str_int 7 @ ''/status'') = Inl OSError
   \<and> numa_memory os_no_proc 7 = [Numa_memory_nodes, Could_not_check OSError, Blank_line]
   \<and> open_r os_cgroup_io_error (''/proc/'' @ str_int 7 @ ''/cgroup'')
        = Inr (File [''0::/mig/mig0\<newline>''] (Some OSError))
   \<and> report_cgroup os_cgroup_io_error 7 3 = Inr (Rank_cgroup 3 ''error'')"
proof -
  have a1: "\<not> path_exists os_no_proc ''/proc/self/status''"
    and a2: "\<not> path_exists os_no_proc ''/proc/self/cgroup''"
    by (simp_all add: os_no_proc_def)
  from probes_are_best_effort[where os = os_no_proc and si = sysinfo0 and T = torch_no_cuda and pid = 7 and rank = 0] a1 a2
  have n: "read_linux_cpu_affinity os_no_proc = Inr None"
    "read_linux_cgroup_cpuset os_no_proc = Inr None" by blast+
  have b1: "open_r os_io_error ''/proc/self/status'' = Inr (File [''Name: python3\<newline>''] (Some OSError))"
    by (simp add: os_io_error_def)
  have b2: "\<not> py_startswith ''Name: python3\<newline>'' ''Cpus_allowed_list:''"
    by (simp add: py_startswith_def)
  from b2 have b3: "\<forall>l \<in> set [''Name: python3\<newline>'']. \<not> py_startswith l ''Cpus_allowed_list:''"
    by simp
  from probes_are_best_effort[where os = os_io_error and si = sysinfo0 and T = torch_no_cuda and pid = 7 and rank = 0] b1 b3
  have e: "read_linux_cpu_affinity os_io_error = Inr None" by blast
  have c1: "read_linux_cpu_affinity os_mig = Inr (Some ''0-3'')"
    by (simp add: read_linux_cpu_affinity_def os_mig_def string_defs)
  have c2: "read_linux_cgroup_cpuset os_mig = Inr (Some ''0-3'')"
    by (simp add: read_linux_cgroup_cpuset_def os_mig_def string_defs Let_def)
  from probes_are_best_effort[where os = os_mig and si = sysinfo0 and T = torch_no_cuda and pid = 7 and rank = 0] c2
  have c3: "\<exists>p ls. path_exists os_mig p \<and> open_r os_mig p = Inr (File ls None)
          \<and> ''0-3'' = py_strip (concat ls)" by blast
  have s7: "str_int 7 = ''7''" by code_simp
  have d1: "open_r os_no_proc (''/proc/'' @ str_int 7 @ ''/cgroup'') = Inl OSError"
    and d3: "open_r os_no_proc (''/proc/'' @ str_int 7 @ ''/status'') = Inl OSError"
    by (simp_all add: os_no_proc_def)
  from probes_are_best_effort[where os = os_no_proc and si = sysinfo0 and T = torch_no_cuda
      and pid = 7 and rank = 0] d1 d3
  have d2: "get_cgroup os_no_proc 7 = Inr ''error''"
    and d4: "numa_memory os_no_proc 7 = [Numa_memory_nodes, Could_not_check OSError, Blank_line]"
    by auto
  have f1: "open_r os_cgroup_io_error (''/proc/'' @ str_int 7 @ ''/cgroup'')
        = Inr (File [''0::/mig/mig0\<newline>''] (Some OSError))"
    by (simp add: os_cgroup_io_error_def s7)
  from probes_are_best_effort[where os = os_cgroup_io_error and si = sysinfo0
      and T = torch_no_cuda and pid = 7 and rank = 3] f1
  have f2: "report_cgroup os_cgroup_io_error 7 3 = Inr (Rank_cgroup 3 ''error'')" by blast
  from a1 a2 n b1 b2 e c1 c2 c3 d1 d2 d3 d4 f1 f2 show ?thesis by (intro conjI)
qed

section \<open>Lemmas: the argument parser\<close>






































section \<open>Claim C9: command-line flags\<close>




end
